theory Spec2Isabelle
  imports Complex_Main "HOL-Library.Sublist"
begin

section \<open>JavaScript values used by the exchange arrow\<close>

text \<open>
  A JavaScript \<open>number\<close> is modelled as a finite value or \<open>NaN\<close>. Finite doubles are
  idealised as reals: arithmetic is exact, rounding and the two infinities are left out.
  \<open>NaN\<close> is kept because the component produces it itself (\<open>Math.abs(undefined)\<close>) and
  because every comparison with it is false, which decides which gate fires. A comparison
  whose two sides lie within rounding distance of each other, as for an arrow whose edge
  meets the edge of the viewport, can come out differently in the program. The
  theorems below take the outcome of a comparison as their hypothesis or evaluate
  comparisons well away from their thresholds.
\<close>

datatype jsnum = Num real | NaN

text \<open>A property that may hold \<open>undefined\<close> or \<open>null\<close> instead of a value.\<close>

datatype 'a nullable = Undefined | Null | Present 'a

fun js_add :: "jsnum \<Rightarrow> jsnum \<Rightarrow> jsnum" where
  "js_add (Num a) (Num b) = Num (a + b)"
| "js_add _ _ = NaN"

fun js_sub :: "jsnum \<Rightarrow> jsnum \<Rightarrow> jsnum" where
  "js_sub (Num a) (Num b) = Num (a - b)"
| "js_sub _ _ = NaN"

fun js_mul :: "jsnum \<Rightarrow> jsnum \<Rightarrow> jsnum" where
  "js_mul (Num a) (Num b) = Num (a * b)"
| "js_mul _ _ = NaN"

fun js_lt :: "jsnum \<Rightarrow> jsnum \<Rightarrow> bool" where
  "js_lt (Num a) (Num b) = (a < b)"
| "js_lt _ _ = False"

fun js_gt :: "jsnum \<Rightarrow> jsnum \<Rightarrow> bool" where
  "js_gt (Num a) (Num b) = (a > b)"
| "js_gt _ _ = False"

fun Math_abs :: "jsnum \<Rightarrow> jsnum" where
  "Math_abs (Num a) = Num \<bar>a\<bar>"
| "Math_abs NaN = NaN"

text \<open>
  \<open>ToNumber\<close>, the coercion JavaScript applies to the operand of \<open>Math.abs\<close> and of
  the comparison with \<open>0\<close>: \<open>undefined\<close> becomes \<open>NaN\<close>, \<open>null\<close> becomes \<open>0\<close>.
\<close>

fun to_number :: "jsnum nullable \<Rightarrow> jsnum" where
  "to_number Undefined = NaN"
| "to_number Null = Num 0"
| "to_number (Present n) = n"

text \<open>The nullish coalescing operator \<open>a ?? b\<close>.\<close>

fun nullish_coalesce :: "'a nullable \<Rightarrow> 'a \<Rightarrow> 'a" where
  "nullish_coalesce Undefined b = b"
| "nullish_coalesce Null b = b"
| "nullish_coalesce (Present a) b = a"

section \<open>Data model\<close>

text \<open>\<open>ExchangeArrowData\<close>, the fields the component destructures from \<open>data\<close>.\<close>

record ExchangeArrowData =
  co2intensity :: jsnum
  lonlat :: "(jsnum \<times> jsnum) nullable"
  netFlow :: "jsnum nullable"
  rotation :: jsnum
  key :: string

text \<open>The point \<open>map.project\<close> returns, read as \<open>projection.x\<close> and \<open>projection.y\<close>.\<close>

record Point =
  point_x :: jsnum
  point_y :: jsnum

text \<open>
  What the component uses of \<open>maplibregl.Map\<close>: the current zoom and the projection of
  a coordinate to a screen point. Both are supplied by the map and taken as given.
\<close>

record MaplibreMap =
  getZoom :: jsnum
  project :: "jsnum \<times> jsnum \<Rightarrow> Point"

text \<open>\<open>ExchangeArrowProps\<close>; the field \<open>map\<close> is named \<open>map_gl\<close> here.\<close>

record ExchangeArrowProps =
  data :: ExchangeArrowData
  viewportWidth :: jsnum
  viewportHeight :: jsnum
  map_gl :: MaplibreMap
  colorBlindMode :: bool

text \<open>
  The functions the module imports and does not define: the two quantized scales of
  \<open>./scales\<close>, whose result is interpolated into the image path, and \<open>resolvePath\<close> of
  the router, of which only \<open>.pathname\<close> is read.
\<close>

record Imports =
  quantizedCo2IntensityScale :: "jsnum \<Rightarrow> string"
  quantizedExchangeSpeedScale :: "jsnum \<Rightarrow> string"
  resolvePath_pathname :: "string \<Rightarrow> string"

text \<open>The object literal \<open>transform\<close>, with its fields \<open>x\<close>, \<open>y\<close>, \<open>k\<close> and \<open>r\<close>.\<close>

record Transform =
  transform_x :: jsnum
  transform_y :: jsnum
  transform_k :: jsnum
  transform_r :: jsnum

text \<open>
  What the returned element tree depends on: the transform written into the style of both
  pictures, the image source of both pictures, the class name of the desktop tooltip and
  the \<open>id\<close> of the pictures.
\<close>

record Rendered =
  transform :: Transform
  imageSource :: string
  tooltipClassName :: string
  picture_id :: string

text \<open>The component returns \<open>null\<close> (\<open>Skip\<close>) or the element tree.\<close>

datatype outcome = Skip | Render Rendered

section \<open>The memo hook\<close>

text \<open>
  \<open>useMemo\<close> keeps, between two renders of one arrow, the dependency list and the value
  of the last computation. The cell is empty before the first computation. The stored
  value is reused when every dependency is the same as before.
\<close>

type_synonym ('d, 'a) memo_cell = "('d \<times> 'a) option"

definition useMemo ::
  "(unit \<Rightarrow> 'a) \<Rightarrow> 'd \<Rightarrow> ('d, 'a) memo_cell \<Rightarrow> 'a \<times> ('d, 'a) memo_cell" where
  "useMemo compute deps cell =
     (case cell of
        None \<Rightarrow> (compute (), Some (deps, compute ()))
      | Some (deps0, v) \<Rightarrow>
          if deps0 = deps then (v, cell) else (compute (), Some (deps, compute ())))"

type_synonym arrow_deps = "bool \<times> jsnum \<times> jsnum nullable"

section \<open>The component\<close>

text \<open>The body of the memoised computation of \<open>imageSource\<close>.\<close>

definition compute_imageSource ::
  "Imports \<Rightarrow> bool \<Rightarrow> jsnum \<Rightarrow> jsnum nullable \<Rightarrow> string" where
  "compute_imageSource imports colorBlindModeEnabled co2 flow =
     (let prefix = (if colorBlindModeEnabled then ''colorblind-'' else '''');
          intensity = quantizedCo2IntensityScale imports co2;
          speed = quantizedExchangeSpeedScale imports (Math_abs (to_number flow))
      in resolvePath_pathname imports
           (''images/arrows/'' @ prefix @ ''arrow-'' @ intensity @ ''-animated-'' @ speed))"

text \<open>The object literal \<open>transform\<close> of a record whose position is present.\<close>

definition compute_transform :: "ExchangeArrowProps \<Rightarrow> jsnum \<times> jsnum \<Rightarrow> Transform" where
  "compute_transform props ll =
     (let mapZoom = getZoom (map_gl props);
          projection = project (map_gl props) ll
      in \<lparr> transform_x = point_x projection,
           transform_y = point_y projection,
           transform_k = js_add (Num 0.04) (js_mul (js_sub mapZoom (Num 1.5)) (Num 0.1)),
           transform_r = js_add (rotation (data props))
             (if js_gt (to_number (netFlow (data props))) (Num 0) then Num 180 else Num 0) \<rparr>)"

definition compute_tooltipClassName :: "Transform \<Rightarrow> jsnum \<Rightarrow> string" where
  "compute_tooltipClassName t headerHeight =
     ''max-h-[256px] max-w-[512px] hidden md:flex'' @
     (if js_lt (js_sub (transform_y t) (Num 76)) headerHeight
      then '' top-[76px]'' else '' top-[-76px]'')"

text \<open>
  The four tests of the viewport, one definition for each \<open>if\<close> of the source: the arrow
  lies left of the viewport, above it, right of it, below it.
\<close>

definition off_left :: "Transform \<Rightarrow> bool" where
  "off_left t = js_lt (js_add (transform_x t) (js_mul (Num 100) (transform_k t))) (Num 0)"

definition off_top :: "Transform \<Rightarrow> bool" where
  "off_top t = js_lt (js_add (transform_y t) (js_mul (Num 100) (transform_k t))) (Num 0)"

definition off_right :: "Transform \<Rightarrow> jsnum \<Rightarrow> bool" where
  "off_right t vw = js_gt (js_sub (transform_x t) (js_mul (Num 100) (transform_k t))) vw"

definition off_bottom :: "Transform \<Rightarrow> jsnum \<Rightarrow> bool" where
  "off_bottom t vh = js_gt (js_sub (transform_y t) (js_mul (Num 100) (transform_k t))) vh"

text \<open>
  \<open>ExchangeArrow\<close>. Its arguments beyond the props are what it reads from outside: the
  imported functions, the value of \<open>getHeaderHeight()\<close> and the cell of its memo hook; it
  returns the cell with its result. A record without position returns before the hooks
  run, so it leaves the cell as it is. The wheel listener of the effect hook and the atom
  setter only act after the render and are left out.
\<close>

definition ExchangeArrow ::
  "Imports \<Rightarrow> jsnum \<Rightarrow> (arrow_deps, string) memo_cell \<Rightarrow> ExchangeArrowProps
     \<Rightarrow> outcome \<times> (arrow_deps, string) memo_cell" where
  "ExchangeArrow imports headerHeight cell props =
     (let colorBlindModeEnabled = colorBlindMode props;
          absFlow = Math_abs (nullish_coalesce (netFlow (data props)) (Num 0))
      in case lonlat (data props) of
           Undefined \<Rightarrow> (Skip, cell)
         | Null \<Rightarrow> (Skip, cell)
         | Present ll \<Rightarrow>
            (let (src, cell') =
                   useMemo
                     (\<lambda>_. compute_imageSource imports colorBlindModeEnabled
                            (co2intensity (data props)) (netFlow (data props)))
                     (colorBlindModeEnabled, co2intensity (data props), netFlow (data props))
                     cell;
                 t = compute_transform props ll;
                 cls = compute_tooltipClassName t headerHeight
             in if js_lt absFlow (Num 1) then (Skip, cell')
                else if js_lt (transform_k t) (Num 0.1) then (Skip, cell')
                else if off_left t then (Skip, cell')
                else if off_top t then (Skip, cell')
                else if off_right t (viewportWidth props) then (Skip, cell')
                else if off_bottom t (viewportHeight props) then (Skip, cell')
                else (Render \<lparr> transform = t, imageSource = src, tooltipClassName = cls,
                               picture_id = key (data props) \<rparr>, cell')))"

section \<open>Instances and their hooks\<close>

text \<open>
  React keeps, for every mounted instance of a component, the hooks its last render
  called, and the next render of that instance has to call the same hooks in the same
  order. \<open>ExchangeArrow\<close> calls \<open>useSetAtom\<close> before its early return and \<open>useEffect\<close>
  and \<open>useMemo\<close> after it. So an instance is in one of three states: not rendered yet;
  last rendered without position, with the hooks of the short path only; or last rendered
  with position, with all hooks, among them the memo cell.
\<close>

datatype hooks = Unmounted | Returned_early | Ran_all "(arrow_deps, string) memo_cell"

text \<open>
  The two errors of a render whose hooks differ from those of the render before. The first
  is thrown inside the component, by the call of \<open>useEffect\<close> that finds no hook to
  update; the second by React, once the component has returned \<open>null\<close> with hooks left
  over.
\<close>

datatype hook_error = Rendered_more_hooks | Rendered_fewer_hooks

text \<open>One render of an instance: the result and the hooks it leaves, or the error.\<close>

definition render_instance ::
  "Imports \<Rightarrow> jsnum \<Rightarrow> hooks \<Rightarrow> ExchangeArrowProps \<Rightarrow> hook_error + outcome \<times> hooks" where
  "render_instance imports headerHeight hooks props =
     (let returns_early =
            (case lonlat (data props) of Present ll \<Rightarrow> False | Undefined \<Rightarrow> True | Null \<Rightarrow> True)
      in case hooks of
           Unmounted \<Rightarrow>
             (let (result, cell) = ExchangeArrow imports headerHeight None props
              in Inr (result, if returns_early then Returned_early else Ran_all cell))
         | Returned_early \<Rightarrow>
             if returns_early
             then Inr (fst (ExchangeArrow imports headerHeight None props), Returned_early)
             else Inl Rendered_more_hooks
         | Ran_all cell0 \<Rightarrow>
             if returns_early then Inl Rendered_fewer_hooks
             else (let (result, cell) = ExchangeArrow imports headerHeight cell0 props
                   in Inr (result, Ran_all cell)))"

text \<open>
  The host renders one instance again and again, each time with the props and the header
  height of that moment and with the hooks the render before left behind. An error ends
  the life of the instance.
\<close>

fun renders ::
  "Imports \<Rightarrow> hooks \<Rightarrow> (jsnum \<times> ExchangeArrowProps) list \<Rightarrow> hook_error + hooks" where
  "renders imports hooks [] = Inr hooks"
| "renders imports hooks ((headerHeight, props) # rest) =
     (case render_instance imports headerHeight hooks props of
        Inl e \<Rightarrow> Inl e
      | Inr (result, hooks') \<Rightarrow> renders imports hooks' rest)"

text \<open>The result of rendering an instance with given props after a history of renders.\<close>

definition render_after ::
  "Imports \<Rightarrow> (jsnum \<times> ExchangeArrowProps) list \<Rightarrow> jsnum \<Rightarrow> ExchangeArrowProps
     \<Rightarrow> hook_error + outcome" where
  "render_after imports history headerHeight props =
     (case renders imports Unmounted history of
        Inl e \<Rightarrow> Inl e
      | Inr hooks \<Rightarrow>
          (case render_instance imports headerHeight hooks props of
             Inl e \<Rightarrow> Inl e
           | Inr (result, hooks') \<Rightarrow> Inr result))"

text \<open>A cell is sound when the value it holds is the one its dependencies compute.\<close>

fun cell_sound :: "Imports \<Rightarrow> (arrow_deps, string) memo_cell \<Rightarrow> bool" where
  "cell_sound imports None = True"
| "cell_sound imports (Some ((cb, co2, flow), v)) = (v = compute_imageSource imports cb co2 flow)"

fun hooks_sound :: "Imports \<Rightarrow> hooks \<Rightarrow> bool" where
  "hooks_sound imports (Ran_all cell) = cell_sound imports cell"
| "hooks_sound imports _ = True"

section \<open>The scenario of the specification\<close>

text \<open>
  The record at \<open>(10, 50)\<close> with net flow \<open>500\<close>, intensity \<open>120\<close> and base rotation
  \<open>0\<close>, seen at zoom \<open>5\<close> in a viewport of \<open>1000\<close> by \<open>800\<close>, with a projection
  that returns \<open>(500, 400)\<close>. The scales and the router are stand-ins: tiers \<open>80\<close> and
  \<open>2\<close>, and a path resolved against the root.
\<close>

definition scenario_imports :: Imports where
  "scenario_imports =
     \<lparr> quantizedCo2IntensityScale = (\<lambda>_. ''80''),
       quantizedExchangeSpeedScale = (\<lambda>_. ''2''),
       resolvePath_pathname = (\<lambda>to. ''/'' @ to) \<rparr>"

definition scenario_data :: ExchangeArrowData where
  "scenario_data =
     \<lparr> co2intensity = Num 120, lonlat = Present (Num 10, Num 50),
       netFlow = Present (Num 500), rotation = Num 0, key = ''DE->FR'' \<rparr>"

definition scenario_map :: MaplibreMap where
  "scenario_map =
     \<lparr> getZoom = Num 5, project = (\<lambda>_. \<lparr> point_x = Num 500, point_y = Num 400 \<rparr>) \<rparr>"

definition scenario_props :: ExchangeArrowProps where
  "scenario_props =
     \<lparr> data = scenario_data, viewportWidth = Num 1000, viewportHeight = Num 800,
       map_gl = scenario_map, colorBlindMode = False \<rparr>"

text \<open>The record of the scenario without its position.\<close>

definition scenario_unplaced :: ExchangeArrowProps where
  "scenario_unplaced = scenario_props\<lparr>data := scenario_data\<lparr>lonlat := Undefined\<rparr>\<rparr>"

section \<open>Variants of a record\<close>

text \<open>The same props with another net flow, every other field unchanged.\<close>

definition with_netFlow :: "ExchangeArrowProps \<Rightarrow> jsnum nullable \<Rightarrow> ExchangeArrowProps" where
  "with_netFlow props flow = props\<lparr>data := (data props)\<lparr>netFlow := flow\<rparr>\<rparr>"

section \<open>The shape of the result\<close>

lemmas scenario_defs =
  scenario_props_def scenario_data_def scenario_map_def scenario_imports_def

lemma ExchangeArrow_present:
  assumes "lonlat (data props) = Present ll"
  shows "fst (ExchangeArrow imports hh cell props) =
    (let t = compute_transform props ll in
     if js_lt (Math_abs (nullish_coalesce (netFlow (data props)) (Num 0))) (Num 1) then Skip
     else if js_lt (transform_k t) (Num 0.1) then Skip
     else if off_left t then Skip
     else if off_top t then Skip
     else if off_right t (viewportWidth props) then Skip
     else if off_bottom t (viewportHeight props) then Skip
     else Render \<lparr> transform = t,
            imageSource = fst (useMemo
              (\<lambda>_. compute_imageSource imports (colorBlindMode props)
                     (co2intensity (data props)) (netFlow (data props)))
              (colorBlindMode props, co2intensity (data props), netFlow (data props)) cell),
            tooltipClassName = compute_tooltipClassName t hh,
            picture_id = key (data props) \<rparr>)"
  using assms by (simp add: ExchangeArrow_def Let_def split: prod.splits)

lemma ExchangeArrow_absent:
  assumes "lonlat (data props) = Undefined \<or> lonlat (data props) = Null"
  shows "ExchangeArrow imports hh cell props = (Skip, cell)"
  using assms by (auto simp: ExchangeArrow_def Let_def)

lemma js_add_zero: "js_add r (Num 0) = r"
  by (cases r) simp_all

lemma rendered_transform:
  assumes "fst (ExchangeArrow imports hh cell props) = Render rr"
  shows "\<exists>ll. lonlat (data props) = Present ll \<and> transform rr = compute_transform props ll"
proof (cases "lonlat (data props)")
  case (Present l)
  then have "transform rr = compute_transform props l"
    using assms by (auto simp: ExchangeArrow_present Let_def split: if_splits)
  with Present show ?thesis by simp
qed (use assms in \<open>simp_all add: ExchangeArrow_absent\<close>)

lemma transform_r_eq:
  "transform_r (compute_transform props ll) =
     (if js_gt (to_number (netFlow (data props))) (Num 0)
      then js_add (rotation (data props)) (Num 180) else rotation (data props))"
  by (simp add: compute_transform_def Let_def js_add_zero)

section \<open>The memo cell stays sound\<close>

lemma useMemo_sound_value:
  assumes "cell_sound imports cell"
  shows "fst (useMemo (\<lambda>_. compute_imageSource imports cb co2 flow) (cb, co2, flow) cell)
           = compute_imageSource imports cb co2 flow"
proof (cases cell)
  case None
  then show ?thesis by (simp add: useMemo_def)
next
  case (Some entry)
  obtain cb0 co20 flow0 v where e: "entry = ((cb0, co20, flow0), v)"
    by (metis prod.exhaust)
  with Some assms show ?thesis by (auto simp: useMemo_def)
qed

lemma useMemo_sound_cell:
  assumes "cell_sound imports cell"
  shows "cell_sound imports
           (snd (useMemo (\<lambda>_. compute_imageSource imports cb co2 flow) (cb, co2, flow) cell))"
proof (cases cell)
  case None
  then show ?thesis by (simp add: useMemo_def)
next
  case (Some entry)
  obtain cb0 co20 flow0 v where e: "entry = ((cb0, co20, flow0), v)"
    by (metis prod.exhaust)
  with Some assms show ?thesis by (auto simp: useMemo_def)
qed

lemma ExchangeArrow_sound_cell:
  assumes "cell_sound imports cell"
  shows "cell_sound imports (snd (ExchangeArrow imports hh cell props))"
proof (cases "lonlat (data props)")
  case (Present ll)
  have "snd (ExchangeArrow imports hh cell props) =
          snd (useMemo (\<lambda>_. compute_imageSource imports (colorBlindMode props)
                     (co2intensity (data props)) (netFlow (data props)))
              (colorBlindMode props, co2intensity (data props), netFlow (data props)) cell)"
    using Present by (simp add: ExchangeArrow_def Let_def split: prod.splits)
  then show ?thesis using useMemo_sound_cell [OF assms] by simp
qed (use assms in \<open>simp_all add: ExchangeArrow_absent\<close>)

lemma ExchangeArrow_sound_result:
  assumes "cell_sound imports cell"
  shows "fst (ExchangeArrow imports hh cell props) = fst (ExchangeArrow imports hh None props)"
proof (cases "lonlat (data props)")
  case (Present ll)
  have none: "cell_sound imports None" by simp
  show ?thesis
    unfolding ExchangeArrow_present [OF Present]
      useMemo_sound_value [OF assms] useMemo_sound_value [OF none] ..
qed (simp_all add: ExchangeArrow_absent)

section \<open>Renders of an instance\<close>

lemma render_instance_sound:
  assumes "hooks_sound imports hooks"
    and "render_instance imports hh hooks props = Inr (result, hooks')"
  shows "hooks_sound imports hooks'"
proof (cases hooks)
  case Unmounted
  have "cell_sound imports (snd (ExchangeArrow imports hh None props))"
    by (rule ExchangeArrow_sound_cell) simp
  with Unmounted assms(2) show ?thesis
    by (auto simp: render_instance_def Let_def split: prod.splits if_splits)
next
  case Returned_early
  with assms(2) show ?thesis
    by (auto simp: render_instance_def Let_def split: if_splits)
next
  case (Ran_all cell0)
  with assms(1) have "cell_sound imports (snd (ExchangeArrow imports hh cell0 props))"
    by (simp add: ExchangeArrow_sound_cell)
  with Ran_all assms(2) show ?thesis
    by (auto simp: render_instance_def Let_def split: prod.splits if_splits)
qed

lemma renders_sound:
  "hooks_sound imports hooks \<Longrightarrow> renders imports hooks history = Inr hooks'
     \<Longrightarrow> hooks_sound imports hooks'"
proof (induction history arbitrary: hooks)
  case Nil
  then show ?case by simp
next
  case (Cons entry history)
  obtain hh props where e: "entry = (hh, props)" by (cases entry)
  show ?case
  proof (cases "render_instance imports hh hooks props")
    case (Inl err)
    with Cons.prems(2) e show ?thesis by simp
  next
    case (Inr step)
    obtain result hooks1 where s: "step = (result, hooks1)" by (cases step)
    have "hooks_sound imports hooks1"
      using render_instance_sound [OF Cons.prems(1)] Inr s by simp
    moreover have "renders imports hooks1 history = Inr hooks'"
      using Cons.prems(2) e Inr s by simp
    ultimately show ?thesis by (rule Cons.IH)
  qed
qed

lemma render_instance_result:
  assumes "hooks_sound imports hooks"
    and "render_instance imports hh hooks props = Inr (result, hooks')"
  shows "result = fst (ExchangeArrow imports hh None props)"
proof (cases hooks)
  case Unmounted
  with assms(2) show ?thesis
    by (simp add: render_instance_def Let_def case_prod_beta)
next
  case Returned_early
  with assms(2) show ?thesis
    by (simp add: render_instance_def Let_def split: if_splits)
next
  case (Ran_all cell0)
  with assms(1) have "cell_sound imports cell0"
    by simp
  then have same: "fst (ExchangeArrow imports hh cell0 props) =
                      fst (ExchangeArrow imports hh None props)"
    by (rule ExchangeArrow_sound_result)
  from Ran_all assms(2) have "result = fst (ExchangeArrow imports hh cell0 props)"
    by (simp add: render_instance_def Let_def case_prod_beta split: if_splits)
  with same show ?thesis by simp
qed

lemma render_after_result:
  assumes "render_after imports history hh props = Inr result"
  shows "result = fst (ExchangeArrow imports hh None props)"
proof -
  obtain hooks where h: "renders imports Unmounted history = Inr hooks"
    using assms by (auto simp: render_after_def split: sum.splits)
  then obtain hooks' where r: "render_instance imports hh hooks props = Inr (result, hooks')"
    using assms by (auto simp: render_after_def split: sum.splits)
  have "hooks_sound imports hooks"
    using renders_sound [OF _ h] by simp
  then show ?thesis using r by (rule render_instance_result)
qed

lemma successful_renders_agree:
  assumes "render_after imports history1 hh props = Inr result1"
    and "render_after imports history2 hh props = Inr result2"
  shows "result1 = result2"
  using assms [THEN render_after_result] by simp

section \<open>Gates\<close>

text \<open>
  C1. A record whose position \<open>lonlat\<close> is absent (\<open>undefined\<close> or \<open>null\<close>) renders
  nothing, whatever the flow, the intensity, the rotation, the zoom, the projection, the
  viewport and the colour-blind mode are; the memo hook is not run.
\<close>

theorem absent_lonlat_skips:
  assumes "lonlat (data props) = Undefined \<or> lonlat (data props) = Null"
  shows "fst (ExchangeArrow imports headerHeight cell props) = Skip
       \<and> snd (ExchangeArrow imports headerHeight cell props) = cell"
  using assms by (auto simp: ExchangeArrow_def Let_def)

theorem absent_lonlat_skips_witness:
  "lonlat (data (scenario_props\<lparr>data := scenario_data\<lparr>lonlat := Undefined\<rparr>\<rparr>)) = Undefined
   \<and> fst (ExchangeArrow scenario_imports (Num 60) None
            (scenario_props\<lparr>data := scenario_data\<lparr>lonlat := Undefined\<rparr>\<rparr>)) = Skip
   \<and> lonlat (data (scenario_props\<lparr>data := scenario_data\<lparr>lonlat := Null\<rparr>\<rparr>)) = Null
   \<and> fst (ExchangeArrow scenario_imports (Num 60) None
            (scenario_props\<lparr>data := scenario_data\<lparr>lonlat := Null\<rparr>\<rparr>)) = Skip"
  using
    absent_lonlat_skips [of "scenario_props\<lparr>data := scenario_data\<lparr>lonlat := Undefined\<rparr>\<rparr>"
      scenario_imports "Num 60" None]
    absent_lonlat_skips [of "scenario_props\<lparr>data := scenario_data\<lparr>lonlat := Null\<rparr>\<rparr>"
      scenario_imports "Num 60" None]
  by simp

text \<open>
  C2. A record whose position is present and whose net flow is below \<open>1\<close> in absolute
  value renders nothing. The hypothesis is the JavaScript test \<open>Math.abs(netFlow) < 1\<close>.
\<close>

theorem low_flow_skips:
  assumes "lonlat (data props) = Present ll"
    and "js_lt (Math_abs (to_number (netFlow (data props)))) (Num 1)"
  shows "fst (ExchangeArrow imports hh cell props) = Skip"
proof -
  have "js_lt (Math_abs (nullish_coalesce (netFlow (data props)) (Num 0))) (Num 1)"
    using assms(2) by (cases "netFlow (data props)") simp_all
  then show ?thesis using assms(1) by (simp add: ExchangeArrow_present)
qed

theorem low_flow_skips_witness:
  "lonlat (data (with_netFlow scenario_props (Present (Num 0.5)))) = Present (Num 10, Num 50)
   \<and> js_lt (Math_abs (to_number (netFlow (data (with_netFlow scenario_props (Present (Num 0.5)))))))
         (Num 1)
   \<and> fst (ExchangeArrow scenario_imports (Num 60) None
            (with_netFlow scenario_props (Present (Num 0.5)))) = Skip"
  using low_flow_skips [of "with_netFlow scenario_props (Present (Num 0.5))" "(Num 10, Num 50)"
      scenario_imports "Num 60" None]
  by (simp add: with_netFlow_def scenario_defs)

text \<open>
  C10. When the net flow of the record is absent (\<open>undefined\<close> or \<open>null\<close>), the magnitude
  the gate tests is \<open>abs (netFlow ?? 0) = 0\<close>, which is below \<open>1\<close>: the record renders
  nothing, whatever its other fields are.
\<close>

theorem absent_netFlow_skips:
  assumes "netFlow (data props) = Undefined \<or> netFlow (data props) = Null"
  shows "Math_abs (nullish_coalesce (netFlow (data props)) (Num 0)) = Num 0
         \<and> fst (ExchangeArrow imports hh cell props) = Skip"
proof -
  have a: "Math_abs (nullish_coalesce (netFlow (data props)) (Num 0)) = Num 0"
    using assms by auto
  have "fst (ExchangeArrow imports hh cell props) = Skip"
  proof (cases "lonlat (data props)")
    case (Present ll)
    then show ?thesis using a by (simp add: ExchangeArrow_present)
  qed (simp_all add: ExchangeArrow_absent)
  with a show ?thesis by simp
qed

theorem absent_netFlow_skips_witness:
  "netFlow (data (with_netFlow scenario_props Undefined)) = Undefined
   \<and> fst (ExchangeArrow scenario_imports (Num 60) None (with_netFlow scenario_props Undefined)) = Skip
   \<and> netFlow (data (with_netFlow scenario_props Null)) = Null
   \<and> fst (ExchangeArrow scenario_imports (Num 60) None (with_netFlow scenario_props Null)) = Skip"
  using
    absent_netFlow_skips [of "with_netFlow scenario_props Undefined" scenario_imports "Num 60" None]
    absent_netFlow_skips [of "with_netFlow scenario_props Null" scenario_imports "Num 60" None]
  by (simp add: with_netFlow_def)

section \<open>Scale and rotation\<close>

text \<open>
  C3. The scale of the transform is \<open>0.04 + (zoom - 1.5) * 0.1\<close>, for every zoom and
  with no clamp from above; this is the scale of every rendered arrow. Whenever the scale
  is below \<open>0.1\<close> the record renders nothing, and at every zoom of at most \<open>0.5\<close> the
  scale is below \<open>0.1\<close> and the record renders nothing.
\<close>

theorem scale_rule:
  "transform_k (compute_transform props ll) =
     js_add (Num 0.04) (js_mul (js_sub (getZoom (map_gl props)) (Num 1.5)) (Num 0.1))
   \<and> (\<forall>z. getZoom (map_gl props) = Num z \<longrightarrow>
         transform_k (compute_transform props ll) = Num (0.04 + (z - 1.5) * 0.1))
   \<and> (\<forall>rr. fst (ExchangeArrow imports hh cell props) = Render rr \<longrightarrow>
         transform_k (transform rr) =
           js_add (Num 0.04) (js_mul (js_sub (getZoom (map_gl props)) (Num 1.5)) (Num 0.1)))
   \<and> (js_lt (js_add (Num 0.04) (js_mul (js_sub (getZoom (map_gl props)) (Num 1.5)) (Num 0.1)))
          (Num 0.1) \<longrightarrow>
         fst (ExchangeArrow imports hh cell props) = Skip)
   \<and> (\<forall>z. getZoom (map_gl props) = Num z \<and> z \<le> 0.5 \<longrightarrow>
         js_lt (js_add (Num 0.04) (js_mul (js_sub (getZoom (map_gl props)) (Num 1.5)) (Num 0.1)))
           (Num 0.1)
         \<and> fst (ExchangeArrow imports hh cell props) = Skip)"
proof -
  let ?k = "js_add (Num 0.04) (js_mul (js_sub (getZoom (map_gl props)) (Num 1.5)) (Num 0.1))"
  have k: "transform_k (compute_transform props l) = ?k" for l
    by (simp add: compute_transform_def Let_def)
  have fin: "transform_k (compute_transform props ll) = Num (0.04 + (z - 1.5) * 0.1)"
    if "getZoom (map_gl props) = Num z" for z
    using that by (simp add: compute_transform_def Let_def)
  have gate: "fst (ExchangeArrow imports hh cell props) = Skip" if "js_lt ?k (Num 0.1)"
  proof (cases "lonlat (data props)")
    case (Present l)
    then show ?thesis using that k [of l] by (simp add: ExchangeArrow_present Let_def)
  qed (simp_all add: ExchangeArrow_absent)
  have rendered: "transform_k (transform rr) = ?k"
    if "fst (ExchangeArrow imports hh cell props) = Render rr" for rr
  proof (cases "lonlat (data props)")
    case (Present l)
    then have "transform rr = compute_transform props l"
      using that by (auto simp: ExchangeArrow_present Let_def split: if_splits)
    then show ?thesis using k [of l] by simp
  qed (use that in \<open>simp_all add: ExchangeArrow_absent\<close>)
  have low: "js_lt ?k (Num 0.1)" if "getZoom (map_gl props) = Num z" "z \<le> 0.5" for z
  proof -
    have "0.04 + (z - 1.5) * 0.1 < (0.1::real)"
      using that(2) by (simp add: field_simps)
    then show ?thesis
      by (simp only: that(1) js_sub.simps js_mul.simps js_add.simps js_lt.simps)
  qed
  show ?thesis
    using k fin gate rendered low by blast
qed

theorem scale_rule_witness:
  "getZoom (map_gl (scenario_props\<lparr>map_gl := scenario_map\<lparr>getZoom := Num 0.5\<rparr>\<rparr>)) = Num 0.5
   \<and> (0.5::real) \<le> 0.5
   \<and> transform_k (compute_transform
          (scenario_props\<lparr>map_gl := scenario_map\<lparr>getZoom := Num 0.5\<rparr>\<rparr>) (Num 10, Num 50))
        = Num (- 0.06)
   \<and> js_lt (Num (- 0.06)) (Num 0.1)
   \<and> fst (ExchangeArrow scenario_imports (Num 60) None
            (scenario_props\<lparr>map_gl := scenario_map\<lparr>getZoom := Num 0.5\<rparr>\<rparr>)) = Skip
   \<and> fst (ExchangeArrow scenario_imports (Num 60) None scenario_props) =
        Render \<lparr> transform = \<lparr> transform_x = Num 500, transform_y = Num 400,
                   transform_k = Num 0.39, transform_r = Num 180 \<rparr>,
                 imageSource = ''/images/arrows/arrow-80-animated-2'',
                 tooltipClassName = ''max-h-[256px] max-w-[512px] hidden md:flex top-[-76px]'',
                 picture_id = ''DE->FR'' \<rparr>"
  using
    scale_rule [of "scenario_props\<lparr>map_gl := scenario_map\<lparr>getZoom := Num 0.5\<rparr>\<rparr>"
      "(Num 10, Num 50)" scenario_imports "Num 60" None]
    scale_rule [of scenario_props "(Num 10, Num 50)" scenario_imports "Num 60" None]
  by (simp add: scenario_defs ExchangeArrow_present Let_def compute_transform_def
      off_left_def off_top_def off_right_def off_bottom_def useMemo_def
      compute_imageSource_def compute_tooltipClassName_def)

text \<open>
  C4. The rotation of the transform is the base rotation plus \<open>180\<close> when the net flow is
  positive and the base rotation otherwise. Two records that differ only in the sign of
  their net flow, \<open>f > 0\<close> in one and \<open>- f\<close> in the other, have rotations exactly
  \<open>180\<close> apart.
\<close>

theorem rotation_rule:
  "transform_r (compute_transform props ll) =
     (if js_gt (to_number (netFlow (data props))) (Num 0)
      then js_add (rotation (data props)) (Num 180) else rotation (data props))
   \<and> (\<forall>rr. fst (ExchangeArrow imports hh cell props) = Render rr \<longrightarrow>
         transform_r (transform rr) =
           (if js_gt (to_number (netFlow (data props))) (Num 0)
            then js_add (rotation (data props)) (Num 180) else rotation (data props)))
   \<and> (\<forall>f. 0 < f \<longrightarrow>
         transform_r (compute_transform (with_netFlow props (Present (Num f))) ll) =
           js_add (transform_r (compute_transform (with_netFlow props (Present (Num (- f)))) ll))
             (Num 180))
   \<and> (\<forall>f b. 0 < f \<and> rotation (data props) = Num b \<longrightarrow>
         transform_r (compute_transform (with_netFlow props (Present (Num f))) ll) = Num (b + 180)
         \<and> transform_r (compute_transform (with_netFlow props (Present (Num (- f)))) ll) = Num b)
   \<and> (\<forall>f rr1 rr2 hh2 cell2. 0 < f
         \<and> fst (ExchangeArrow imports hh cell (with_netFlow props (Present (Num f)))) = Render rr1
         \<and> fst (ExchangeArrow imports hh2 cell2 (with_netFlow props (Present (Num (- f))))) = Render rr2
         \<longrightarrow> transform_r (transform rr1) = js_add (transform_r (transform rr2)) (Num 180))"
proof -
  have pos: "transform_r (compute_transform (with_netFlow props (Present (Num f))) l) =
               js_add (rotation (data props)) (Num 180)" if "0 < f" for f l
    using that by (simp add: transform_r_eq with_netFlow_def)
  have neg: "transform_r (compute_transform (with_netFlow props (Present (Num (- f)))) l) =
               rotation (data props)" if "0 < f" for f l
    using that by (simp add: transform_r_eq with_netFlow_def)
  have rendered: "transform_r (transform rr) =
           (if js_gt (to_number (netFlow (data props))) (Num 0)
            then js_add (rotation (data props)) (Num 180) else rotation (data props))"
    if "fst (ExchangeArrow imports hh cell props) = Render rr" for rr
    using rendered_transform [OF that] transform_r_eq by auto
  have pair: "transform_r (transform rr1) = js_add (transform_r (transform rr2)) (Num 180)"
    if f: "0 < f"
      and r1: "fst (ExchangeArrow imports hh cell (with_netFlow props (Present (Num f)))) = Render rr1"
      and r2: "fst (ExchangeArrow imports hh2 cell2 (with_netFlow props (Present (Num (- f))))) = Render rr2"
    for f rr1 rr2 hh2 cell2
  proof -
    obtain l1 where "transform rr1 = compute_transform (with_netFlow props (Present (Num f))) l1"
      using rendered_transform [OF r1] by blast
    moreover obtain l2 where
      "transform rr2 = compute_transform (with_netFlow props (Present (Num (- f)))) l2"
      using rendered_transform [OF r2] by blast
    ultimately show ?thesis using pos [OF f] neg [OF f] by simp
  qed
  have fin: "transform_r (compute_transform (with_netFlow props (Present (Num f))) ll) = Num (b + 180)
         \<and> transform_r (compute_transform (with_netFlow props (Present (Num (- f)))) ll) = Num b"
    if "0 < f" "rotation (data props) = Num b" for f b
    using pos [OF that(1)] neg [OF that(1)] that(2) by simp
  show ?thesis
    using transform_r_eq pos neg rendered pair fin by (intro conjI allI impI) auto
qed

theorem rotation_rule_witness:
  "(0::real) < 500 \<and> rotation (data scenario_props) = Num 0
   \<and> transform_r (compute_transform (with_netFlow scenario_props (Present (Num 500)))
          (Num 10, Num 50)) = Num 180
   \<and> transform_r (compute_transform (with_netFlow scenario_props (Present (Num (- 500))))
          (Num 10, Num 50)) = Num 0
   \<and> fst (ExchangeArrow scenario_imports (Num 60) None
            (with_netFlow scenario_props (Present (Num 500)))) =
        Render \<lparr> transform = \<lparr> transform_x = Num 500, transform_y = Num 400,
                   transform_k = Num 0.39, transform_r = Num 180 \<rparr>,
                 imageSource = ''/images/arrows/arrow-80-animated-2'',
                 tooltipClassName = ''max-h-[256px] max-w-[512px] hidden md:flex top-[-76px]'',
                 picture_id = ''DE->FR'' \<rparr>
   \<and> fst (ExchangeArrow scenario_imports (Num 60) None
            (with_netFlow scenario_props (Present (Num (- 500))))) =
        Render \<lparr> transform = \<lparr> transform_x = Num 500, transform_y = Num 400,
                   transform_k = Num 0.39, transform_r = Num 0 \<rparr>,
                 imageSource = ''/images/arrows/arrow-80-animated-2'',
                 tooltipClassName = ''max-h-[256px] max-w-[512px] hidden md:flex top-[-76px]'',
                 picture_id = ''DE->FR'' \<rparr>"
  using rotation_rule [of scenario_props "(Num 10, Num 50)" scenario_imports "Num 60" None]
  by (simp add: with_netFlow_def scenario_defs ExchangeArrow_present Let_def
      compute_transform_def off_left_def off_top_def off_right_def off_bottom_def useMemo_def
      compute_imageSource_def compute_tooltipClassName_def)

section \<open>The scenario\<close>

text \<open>
  C7. The record at \<open>(10, 50)\<close> with net flow \<open>500\<close>, intensity \<open>120\<close> and base
  rotation \<open>0\<close>, at zoom \<open>5\<close> in a viewport of \<open>1000\<close> by \<open>800\<close>, projected to
  \<open>(500, 400)\<close>, is rendered with scale \<open>0.04 + 3.5 * 0.1 = 0.39\<close> and rotation
  \<open>180\<close>, and none of the four viewport tests holds.
\<close>

theorem scenario_renders:
  assumes "lonlat (data props) = Present (Num 10, Num 50)"
    and "netFlow (data props) = Present (Num 500)"
    and "co2intensity (data props) = Num 120"
    and "rotation (data props) = Num 0"
    and "getZoom (map_gl props) = Num 5"
    and "viewportWidth props = Num 1000"
    and "viewportHeight props = Num 800"
    and "project (map_gl props) (Num 10, Num 50) = \<lparr> point_x = Num 500, point_y = Num 400 \<rparr>"
  shows "(\<exists>rr. fst (ExchangeArrow imports hh cell props) = Render rr
            \<and> transform rr = \<lparr> transform_x = Num 500, transform_y = Num 400,
                   transform_k = Num 0.39, transform_r = Num 180 \<rparr>)
       \<and> compute_transform props (Num 10, Num 50) =
            \<lparr> transform_x = Num 500, transform_y = Num 400,
              transform_k = Num (0.04 + 3.5 * 0.1), transform_r = Num 180 \<rparr>
       \<and> \<not> off_left (compute_transform props (Num 10, Num 50))
       \<and> \<not> off_top (compute_transform props (Num 10, Num 50))
       \<and> \<not> off_right (compute_transform props (Num 10, Num 50)) (viewportWidth props)
       \<and> \<not> off_bottom (compute_transform props (Num 10, Num 50)) (viewportHeight props)"
proof -
  let ?t = "\<lparr> transform_x = Num 500, transform_y = Num 400,
              transform_k = Num 0.39, transform_r = Num 180 \<rparr>"
  have t: "compute_transform props (Num 10, Num 50) = ?t"
    using assms(2,4,5,8) by (simp add: compute_transform_def Let_def)
  have tests: "\<not> off_left ?t" "\<not> off_top ?t" "\<not> off_right ?t (Num 1000)"
    "\<not> off_bottom ?t (Num 800)"
    by (simp_all add: off_left_def off_top_def off_right_def off_bottom_def)
  have flow: "\<not> js_lt (Math_abs (nullish_coalesce (netFlow (data props)) (Num 0))) (Num 1)"
    using assms(2) by simp
  have "\<exists>rr. fst (ExchangeArrow imports hh cell props) = Render rr \<and> transform rr = ?t"
    unfolding ExchangeArrow_present [OF assms(1)] t Let_def
    using flow tests assms(6,7) by simp
  then show ?thesis using t tests assms(6,7) by simp
qed

theorem scenario_renders_witness:
  "lonlat (data scenario_props) = Present (Num 10, Num 50)
   \<and> netFlow (data scenario_props) = Present (Num 500)
   \<and> co2intensity (data scenario_props) = Num 120
   \<and> rotation (data scenario_props) = Num 0
   \<and> getZoom (map_gl scenario_props) = Num 5
   \<and> viewportWidth scenario_props = Num 1000
   \<and> viewportHeight scenario_props = Num 800
   \<and> project (map_gl scenario_props) (Num 10, Num 50) = \<lparr> point_x = Num 500, point_y = Num 400 \<rparr>
   \<and> compute_transform scenario_props (Num 10, Num 50) =
        \<lparr> transform_x = Num 500, transform_y = Num 400,
          transform_k = Num 0.39, transform_r = Num 180 \<rparr>
   \<and> fst (ExchangeArrow scenario_imports (Num 60) None scenario_props) \<noteq> Skip"
  using scenario_renders [of scenario_props scenario_imports "Num 60" None]
  by (auto simp: scenario_defs)

section \<open>The image source\<close>

text \<open>
  C9, amended. The image source of a rendered arrow is the path resolved from
  \<open>images/arrows/\<close>, then \<open>colorblind-\<close> exactly in colour-blind mode, then \<open>arrow-\<close>,
  the intensity tier, \<open>-animated-\<close> and the speed tier of the absolute net flow. It is
  the same for any two renders that agree on the colour-blind mode, the intensity and the
  absolute net flow, whatever the instance rendered before them.
\<close>

theorem image_source_rule:
  assumes "render_after imports history hh props = Inr (Render rr)"
  shows "imageSource rr =
           resolvePath_pathname imports
             (''images/arrows/'' @ (if colorBlindMode props then ''colorblind-'' else [])
              @ ''arrow-'' @ quantizedCo2IntensityScale imports (co2intensity (data props))
              @ ''-animated-''
              @ quantizedExchangeSpeedScale imports (Math_abs (to_number (netFlow (data props)))))
       \<and> (\<forall>props' hh' history' rr'.
             colorBlindMode props' = colorBlindMode props
             \<and> co2intensity (data props') = co2intensity (data props)
             \<and> Math_abs (to_number (netFlow (data props'))) =
                 Math_abs (to_number (netFlow (data props)))
             \<and> render_after imports history' hh' props' = Inr (Render rr')
             \<longrightarrow> imageSource rr' = imageSource rr)"
proof -
  have src: "imageSource r =
           resolvePath_pathname imports
             (''images/arrows/'' @ (if colorBlindMode p then ''colorblind-'' else [])
              @ ''arrow-'' @ quantizedCo2IntensityScale imports (co2intensity (data p))
              @ ''-animated-''
              @ quantizedExchangeSpeedScale imports (Math_abs (to_number (netFlow (data p)))))"
    if r: "render_after imports hs h p = Inr (Render r)" for r h hs p
  proof (cases "lonlat (data p)")
    case (Present ll)
    have first: "fst (ExchangeArrow imports h None p) = Render r"
      using render_after_result [OF r] by simp
    have sound: "cell_sound imports None"
      by simp
    have "imageSource r = compute_imageSource imports (colorBlindMode p)
                            (co2intensity (data p)) (netFlow (data p))"
      using first unfolding ExchangeArrow_present [OF Present] useMemo_sound_value [OF sound] Let_def
      by (auto split: if_splits)
    then show ?thesis by (simp add: compute_imageSource_def Let_def)
  qed (use render_after_result [OF r] in \<open>simp_all add: ExchangeArrow_absent\<close>)
  show ?thesis
  proof (intro conjI allI impI)
    show "imageSource rr =
           resolvePath_pathname imports
             (''images/arrows/'' @ (if colorBlindMode props then ''colorblind-'' else [])
              @ ''arrow-'' @ quantizedCo2IntensityScale imports (co2intensity (data props))
              @ ''-animated-''
              @ quantizedExchangeSpeedScale imports (Math_abs (to_number (netFlow (data props)))))"
      by (rule src [OF assms])
  next
    fix props' hh' history' rr'
    assume a: "colorBlindMode props' = colorBlindMode props
             \<and> co2intensity (data props') = co2intensity (data props)
             \<and> Math_abs (to_number (netFlow (data props'))) =
                 Math_abs (to_number (netFlow (data props)))
             \<and> render_after imports history' hh' props' = Inr (Render rr')"
    then have "render_after imports history' hh' props' = Inr (Render rr')"
      by simp
    from src [OF this] src [OF assms] a show "imageSource rr' = imageSource rr"
      by simp
  qed
qed

theorem image_source_rule_witness:
  "render_after scenario_imports [(Num 60, scenario_props\<lparr>colorBlindMode := True\<rparr>)] (Num 60)
     scenario_props =
     Inr (Render \<lparr> transform = \<lparr> transform_x = Num 500, transform_y = Num 400,
                transform_k = Num 0.39, transform_r = Num 180 \<rparr>,
              imageSource = ''/images/arrows/arrow-80-animated-2'',
              tooltipClassName = ''max-h-[256px] max-w-[512px] hidden md:flex top-[-76px]'',
              picture_id = ''DE->FR'' \<rparr>)
   \<and> resolvePath_pathname scenario_imports
         (''images/arrows/'' @ (if colorBlindMode scenario_props then ''colorblind-'' else [])
          @ ''arrow-'' @ quantizedCo2IntensityScale scenario_imports (co2intensity (data scenario_props))
          @ ''-animated-''
          @ quantizedExchangeSpeedScale scenario_imports
              (Math_abs (to_number (netFlow (data scenario_props)))))
       = ''/images/arrows/arrow-80-animated-2''"
  using image_source_rule [of scenario_imports
      "[(Num 60, scenario_props\<lparr>colorBlindMode := True\<rparr>)]" "Num 60" scenario_props]
  by (simp add: render_after_def render_instance_def scenario_defs ExchangeArrow_def Let_def
      compute_transform_def off_left_def off_top_def off_right_def off_bottom_def useMemo_def
      compute_imageSource_def compute_tooltipClassName_def)

text \<open>
  The composition is not the marker, a base name and the two tiers joined by hyphens: in
  colour-blind mode with tiers \<open>80\<close> and \<open>2\<close> the image source neither begins with
  \<open>colorblind-\<close> nor ends with \<open>-80-2\<close>.
\<close>

theorem image_source_counterexample:
  "fst (ExchangeArrow scenario_imports (Num 60) None (scenario_props\<lparr>colorBlindMode := True\<rparr>)) =
     Render \<lparr> transform = \<lparr> transform_x = Num 500, transform_y = Num 400,
                transform_k = Num 0.39, transform_r = Num 180 \<rparr>,
              imageSource = ''/images/arrows/colorblind-arrow-80-animated-2'',
              tooltipClassName = ''max-h-[256px] max-w-[512px] hidden md:flex top-[-76px]'',
              picture_id = ''DE->FR'' \<rparr>
   \<and> quantizedCo2IntensityScale scenario_imports (co2intensity (data scenario_props)) = ''80''
   \<and> quantizedExchangeSpeedScale scenario_imports
         (Math_abs (to_number (netFlow (data scenario_props)))) = ''2''
   \<and> \<not> prefix ''colorblind-'' ''/images/arrows/colorblind-arrow-80-animated-2''
   \<and> \<not> suffix (''-'' @ ''80'' @ ''-'' @ ''2'') ''/images/arrows/colorblind-arrow-80-animated-2''"
  by (simp add: scenario_defs ExchangeArrow_def Let_def compute_transform_def
      off_left_def off_top_def off_right_def off_bottom_def useMemo_def
      compute_imageSource_def compute_tooltipClassName_def suffix_to_prefix)

section \<open>History and errors\<close>

text \<open>
  C6. Equal props, header height and imports should give the same result whatever the
  instance rendered before. The component does not keep to this. Rendered first, the
  scenario gives its element tree; rendered after a record without position, the same
  scenario throws, because the early return of that render came before \<open>useEffect\<close> and
  \<open>useMemo\<close>. The other way round, a record without position renders nothing at first
  and fails after the scenario.
\<close>

theorem outcome_depends_on_history:
  "render_after scenario_imports [] (Num 60) scenario_props =
     Inr (Render \<lparr> transform = \<lparr> transform_x = Num 500, transform_y = Num 400,
                transform_k = Num 0.39, transform_r = Num 180 \<rparr>,
              imageSource = ''/images/arrows/arrow-80-animated-2'',
              tooltipClassName = ''max-h-[256px] max-w-[512px] hidden md:flex top-[-76px]'',
              picture_id = ''DE->FR'' \<rparr>)
   \<and> render_after scenario_imports [(Num 60, scenario_unplaced)] (Num 60) scenario_props =
     Inl Rendered_more_hooks
   \<and> render_after scenario_imports [] (Num 60) scenario_unplaced = Inr Skip
   \<and> render_after scenario_imports [(Num 60, scenario_props)] (Num 60) scenario_unplaced =
     Inl Rendered_fewer_hooks"
  by (simp add: render_after_def render_instance_def scenario_unplaced_def scenario_defs
      ExchangeArrow_def Let_def compute_transform_def off_left_def off_top_def off_right_def
      off_bottom_def useMemo_def compute_imageSource_def compute_tooltipClassName_def)

text \<open>
  C8. Every render should end in nothing or in an element tree and never throw, when the
  projection returns a finite point. The component does not keep to this either: the
  scenario, whose projection returns \<open>(500, 400)\<close>, throws when the instance last rendered
  a record without position.
\<close>

theorem render_throws_after_early_return:
  "lonlat (data scenario_props) = Present (Num 10, Num 50)
   \<and> project (map_gl scenario_props) (Num 10, Num 50) = \<lparr> point_x = Num 500, point_y = Num 400 \<rparr>
   \<and> lonlat (data scenario_unplaced) = Undefined
   \<and> render_instance scenario_imports (Num 60) Unmounted scenario_unplaced =
       Inr (Skip, Returned_early)
   \<and> render_instance scenario_imports (Num 60) Returned_early scenario_props =
       Inl Rendered_more_hooks"
  by (simp add: render_instance_def scenario_unplaced_def scenario_defs ExchangeArrow_def Let_def)

end
